theory Spec2Isabelle
  imports Main
begin

section \<open>The page as the readiness script sees it\<close>

text \<open>
  The script injected by \<open>convert_html_file_to_image\<close> (html2image.py, lines 225-288)
  looks at the document through \<open>querySelector\<close> and \<open>querySelectorAll\<close> with three
  simple selectors: a tag name (\<open>canvas\<close>, \<open>svg\<close>) and a class name (\<open>.vega-embed\<close>,
  \<open>.marks\<close>).  An element is its tag, its id, its classes and its children.
\<close>

datatype element =
  Element (tag: string) (elem_id: string) (classes: "string list") (children: "element list")

datatype selector = Tag string | Class string

fun matches :: "selector \<Rightarrow> element \<Rightarrow> bool" where
  "matches (Tag t) e = (tag e = t)"
| "matches (Class c) e = (c \<in> set (classes e))"

text \<open>All elements below an element, in document order, the element itself left out.\<close>

fun descendants :: "element \<Rightarrow> element list" where
  "descendants (Element t i cs kids) = concat (map (\<lambda>k. k # descendants k) kids)"

text \<open>\<open>container.querySelector(sel)\<close>: the first descendant that matches, or null.\<close>

definition querySelector :: "selector \<Rightarrow> element \<Rightarrow> element option" where
  "querySelector sel e = find (matches sel) (descendants e)"

text \<open>\<open>document.querySelectorAll(sel)\<close>: every element of the document that matches,
  the root element included.\<close>

definition querySelectorAll :: "selector \<Rightarrow> element \<Rightarrow> element list" where
  "querySelectorAll sel root = filter (matches sel) (root # descendants root)"

text \<open>Decimal digits of a number, for the template string \<open>`container-${i}`\<close>.\<close>

fun string_of_nat :: "nat \<Rightarrow> string" where
  "string_of_nat n =
     (if n < 10 then [''0123456789'' ! n]
      else string_of_nat (n div 10) @ [''0123456789'' ! (n mod 10)])"

subsection \<open>\<open>window.checkVegaRenderStatus\<close>\<close>

record detail =
  detail_id :: string
  hasCanvas :: bool
  hasMarks :: bool
  hasSVG :: bool

record render_status =
  allRendered :: bool
  details :: "detail list"
  container_count :: nat

text \<open>
  The body of \<open>containers.forEach((container, i) => ...)\<close>, lines 233-248: the two
  variables the callback updates, \<open>allRendered\<close> and \<open>details\<close>, are the accumulator.
  \<open>!!container.querySelector(s)\<close> is true when the query finds an element.
\<close>

fun forEach_container :: "element list \<Rightarrow> nat \<Rightarrow> bool \<times> detail list \<Rightarrow> bool \<times> detail list" where
  "forEach_container [] i acc = acc"
| "forEach_container (container # rest) i (allR, ds) =
     (let has_canvas = (querySelector (Tag ''canvas'') container \<noteq> None);
          has_marks = (querySelector (Class ''marks'') container \<noteq> None);
          has_svg = (querySelector (Tag ''svg'') container \<noteq> None);
          ds' = ds @ [\<lparr>detail_id = (if elem_id container \<noteq> [] then elem_id container
                                     else ''container-'' @ string_of_nat i),
                       hasCanvas = has_canvas, hasMarks = has_marks, hasSVG = has_svg\<rparr>];
          allR' = (if \<not> (has_canvas \<or> has_marks \<or> has_svg) then False else allR)
      in forEach_container rest (Suc i) (allR', ds'))"

definition checkVegaRenderStatus :: "element \<Rightarrow> render_status" where
  "checkVegaRenderStatus document =
     (let containers = querySelectorAll (Class ''vega-embed'') document;
          r = forEach_container containers 0 (True, [])
      in \<lparr>allRendered = fst r, details = snd r, container_count = length containers\<rparr>)"

section \<open>Paths (posixpath)\<close>

text \<open>
  \<open>os.path.splitext(p)[0]\<close>: the extension starts at the last dot of the last path
  component, unless only dots stand before it in that component.
\<close>

definition splitext_root :: "string \<Rightarrow> string" where
  "splitext_root p =
     (let base = rev (takeWhile (\<lambda>c. c \<noteq> CHR ''/'') (rev p));
          dir = take (length p - length base) p
      in if CHR ''.'' \<in> set base
         then (let stem = rev (tl (dropWhile (\<lambda>c. c \<noteq> CHR ''.'') (rev base)))
               in if list_ex (\<lambda>c. c \<noteq> CHR ''.'') stem then dir @ stem else p)
         else p)"

fun split_slash :: "string \<Rightarrow> string list" where
  "split_slash [] = [[]]"
| "split_slash (c # cs) =
     (if c = CHR ''/'' then [] # split_slash cs
      else (case split_slash cs of [] \<Rightarrow> [[c]] | x # xs \<Rightarrow> (c # x) # xs))"

text \<open>\<open>normpath\<close> of an absolute path, on its components: empty and \<open>.\<close> components are
  dropped, \<open>..\<close> removes the component before it (and is dropped at the root).\<close>

fun norm_comps :: "string list \<Rightarrow> string list \<Rightarrow> string list" where
  "norm_comps acc [] = acc"
| "norm_comps acc (c # cs) =
     (if c = [] \<or> c = ''.'' then norm_comps acc cs
      else if c = ''..'' then norm_comps (butlast acc) cs
      else norm_comps (acc @ [c]) cs)"

text \<open>\<open>os.path.abspath(p)\<close> as the list of components of the result; \<open>cwd\<close> is the
  components of the working directory.\<close>

definition abspath_comps :: "string list \<Rightarrow> string \<Rightarrow> string list" where
  "abspath_comps cwd p =
     norm_comps [] ((if p \<noteq> [] \<and> hd p = CHR ''/'' then [] else cwd) @ split_slash p)"

fun commonprefix :: "string list \<Rightarrow> string list \<Rightarrow> string list" where
  "commonprefix (x # xs) (y # ys) = (if x = y then x # commonprefix xs ys else [])"
| "commonprefix xs ys = []"

text \<open>\<open>os.path.relpath(path, start)\<close> on the components of the two absolute paths: one
  \<open>..\<close> for each component of \<open>start\<close> beyond the common prefix, then the rest of
  \<open>path\<close>; \<open>.\<close> when nothing is left.\<close>

definition relpath :: "string list \<Rightarrow> string list \<Rightarrow> string list" where
  "relpath path_list start_list =
     (let i = length (commonprefix start_list path_list);
          rel_list = replicate (length start_list - i) ''..'' @ drop i path_list
      in if rel_list = [] then [''.''] else rel_list)"


section \<open>Effects, exceptions and the outside world\<close>

datatype handler = SimpleHTTPServerHandler | SimpleHTTPServerWithContentTypes

text \<open>\<open>f"http://localhost:{port}/{rel_path}"\<close>: the port and the path segments.\<close>

datatype url = Url nat "string list"

datatype js =
    JS_has_vega
  | JS_checkVegaRenderStatus
  | JS_forceRenderCharts
  | JS_has_img
  | JS_scrollHeight

text \<open>
  The messages the two functions print when \<open>debug\<close> is False and \<open>quiet\<close> is True, as
  their defaults have them; what follows is about such calls, and the prints under
  \<open>if debug\<close> and \<open>if not quiet\<close> are not part of it.
\<close>

datatype message =
    Msg_server_started nat
  | Msg_server_abnormal nat
  | Msg_cannot_connect
  | Msg_screenshot_error
  | Msg_start_server_error

text \<open>Every call the two modules make on the operating system, the standard output,
  the HTTP server object and the browser.\<close>

datatype operation =
    Op_tcp_server string nat
  | Op_print message
  | Op_traceback
  | Op_import_requests
  | Op_thread_start
  | Op_sleep nat
  | Op_http_get url
  | Op_find_free_port
  | Op_connect_ex nat
  | Op_httpd_shutdown
  | Op_httpd_server_close
  | Op_playwright_start
  | Op_playwright_stop
  | Op_launch
  | Op_new_context
  | Op_new_page
  | Op_goto url
  | Op_wait_for_load_state string
  | Op_evaluate js
  | Op_wait_for_function
  | Op_wait_for_selector string string
  | Op_add_script_tag
  | Op_wait_for_timeout nat
  | Op_set_viewport_size nat nat
  | Op_screenshot string
  | Op_browser_close

text \<open>A run is observed as the list of calls it made, each with whether it returned
  (\<open>True\<close>) or raised (\<open>False\<close>).\<close>

datatype event = Call operation bool

text \<open>
  The places of \<open>start_http_server\<close>, \<open>convert_html_file_to_image\<close> and
  \<open>serve_directory\<close> where a call may raise, by source line.  A \<open>print\<close> raises when the
  standard output cannot take the text (line 49 prints an emoji, lines 156 and 158 a
  warning sign), \<open>Thread.start\<close> when no thread can be started.  Exceptions are those
  below \<open>Exception\<close>, which the handlers of the source catch.
\<close>

datatype site =
    S_print_server_started
  | S_thread_start
  | S_import_requests
  | S_print_server_abnormal
  | S_print_cannot_connect
  | S_print_screenshot_error
  | S_traceback_inner
  | S_print_start_server_error
  | S_traceback_outer
  | S_connect_ex
  | S_serve_thread_start
  | S_playwright_start
  | S_playwright_stop
  | S_launch
  | S_new_context
  | S_new_page
  | S_goto
  | S_wait_load
  | S_wait_networkidle
  | S_eval_has_vega
  | S_wait_vega_global
  | S_wait_vega_container
  | S_add_script_tag
  | S_settle_initial
  | S_check_status_first
  | S_force_render_first
  | S_settle_escalation
  | S_check_status_after
  | S_force_render_again
  | S_settle_again
  | S_eval_has_images
  | S_wait_img_visible
  | S_settle_final
  | S_eval_scroll_height
  | S_set_viewport
  | S_screenshot
  | S_browser_close
  | S_httpd_shutdown
  | S_httpd_server_close
  | S_with_exit_server_close

datatype exn =
    OSError_AddrInUse nat
  | OSError_other
  | OverflowError
  | RuntimeError_PortInUse nat
  | ValueError_no_path
  | RequestException
  | URLError
  | Raised_at site

text \<open>
  The address a socket is bound to: the loopback interface (the host \<open>localhost\<close>), every
  interface (the empty host name), or one other address.  Two sockets cannot hold the
  same port when their addresses are the same or one of them is every interface.
\<close>

datatype address = Loopback | Wildcard | Other string

definition host_address :: "string \<Rightarrow> address" where
  "host_address host =
     (if host = [] then Wildcard else if host = ''localhost'' then Loopback else Other host)"

definition conflicts :: "address \<Rightarrow> address \<Rightarrow> bool" where
  "conflicts a b = (a = b \<or> a = Wildcard \<or> b = Wildcard)"

definition address_in_use :: "(address \<times> nat) list \<Rightarrow> address \<Rightarrow> nat \<Rightarrow> bool" where
  "address_in_use sockets a port = list_ex (\<lambda>s. snd s = port \<and> conflicts (fst s) a) sockets"

text \<open>
  What the code cannot decide itself: the working directory and the project root
  (three levels above the module), the sockets other programs have bound
  (\<open>bound_sockets\<close>) and those of them that accept connections (\<open>listening_sockets\<close>), the
  port the operating system hands out for port 0, which calls raise, what the liveness
  probes answer (\<open>probe_status\<close> for \<open>requests.get\<close>, \<open>probe_ok\<close> for the attempts of
  \<open>urlopen\<close>), and what the page looks like at the first and at the second run of the
  readiness script.
\<close>

record world =
  cwd :: "string list"
  project_root :: "string list"
  bound_sockets :: "(address \<times> nat) list"
  listening_sockets :: "(address \<times> nat) list"
  ephemeral_port :: "nat option"
  site_ok :: "site \<Rightarrow> bool"
  probe_status :: "nat option"
  probe_ok :: "nat \<Rightarrow> bool"
  vega_global :: bool
  vega_script_tag :: bool
  dom_initial :: element
  dom_escalated :: element
  has_img :: bool
  scroll_height :: nat

text \<open>A computation: its outcome (\<open>Inl\<close> an exception, \<open>Inr\<close> a value) and the events
  it caused, in order.\<close>

type_synonym 'a io = "(exn + 'a) \<times> event list"

definition io_return :: "'a \<Rightarrow> 'a io" where
  "io_return x = (Inr x, [])"

definition io_raise :: "exn \<Rightarrow> 'a io" where
  "io_raise e = (Inl e, [])"

definition io_bind :: "'a io \<Rightarrow> ('a \<Rightarrow> 'b io) \<Rightarrow> 'b io" where
  "io_bind m f =
     (case m of
        (Inl e, tr) \<Rightarrow> (Inl e, tr)
      | (Inr x, tr) \<Rightarrow> (case f x of (r, tr') \<Rightarrow> (r, tr @ tr')))"

text \<open>\<open>try: m except Exception as e: h e\<close>\<close>

definition io_try :: "'a io \<Rightarrow> (exn \<Rightarrow> 'a io) \<Rightarrow> 'a io" where
  "io_try m h =
     (case m of
        (Inl e, tr) \<Rightarrow> (case h e of (r, tr') \<Rightarrow> (r, tr @ tr'))
      | (Inr x, tr) \<Rightarrow> (Inr x, tr))"

text \<open>\<open>try: m finally: fin\<close>, also the exit of a \<open>with\<close> block: \<open>fin\<close> runs whatever
  \<open>m\<close> did, and an exception of \<open>fin\<close> replaces the outcome of \<open>m\<close>, a returned value
  included.\<close>

definition io_finally :: "'a io \<Rightarrow> unit io \<Rightarrow> 'a io" where
  "io_finally m fin =
     (case m of (r, tr) \<Rightarrow>
        (case fin of
           (Inl e, tr') \<Rightarrow> (Inl e, tr @ tr')
         | (Inr u, tr') \<Rightarrow> (r, tr @ tr')))"

text \<open>The outcome of \<open>m\<close> as a value, for code that goes on differently after an
  exception.\<close>

definition io_attempt :: "'a io \<Rightarrow> (exn + 'a) io" where
  "io_attempt m = (case m of (r, tr) \<Rightarrow> (Inr r, tr))"

text \<open>\<open>time.sleep\<close> of a constant: the one call that raises nothing below
  \<open>Exception\<close>.\<close>

definition io_do :: "operation \<Rightarrow> unit io" where
  "io_do opn = (Inr (), [Call opn True])"

text \<open>A call at a site where the world decides whether it raises; \<open>v\<close> is what it
  returns otherwise.\<close>

definition io_call_val :: "world \<Rightarrow> site \<Rightarrow> operation \<Rightarrow> 'a \<Rightarrow> 'a io" where
  "io_call_val w s opn v =
     (if site_ok w s then (Inr v, [Call opn True]) else (Inl (Raised_at s), [Call opn False]))"

definition io_call :: "world \<Rightarrow> site \<Rightarrow> operation \<Rightarrow> unit io" where
  "io_call w s opn = io_call_val w s opn ()"

definition io_print :: "world \<Rightarrow> site \<Rightarrow> message \<Rightarrow> unit io" where
  "io_print w s m = io_call w s (Op_print m)"

section \<open>The content servers\<close>

record tcp_server =
  server_host :: string
  server_port :: nat
  server_handler :: handler
  server_directory :: "string list"

text \<open>
  \<open>socketserver.TCPServer((host, port), handler)\<close> binds and listens in its constructor,
  with \<open>allow_reuse_address\<close> left False: port 0 asks the operating system for a free
  port, a port another socket holds at a conflicting address gives \<open>OSError\<close> (address
  already in use), a port above 65535 gives \<open>OverflowError\<close>.
\<close>

definition TCPServer :: "world \<Rightarrow> string \<Rightarrow> nat \<Rightarrow> handler \<Rightarrow> string list \<Rightarrow> tcp_server io" where
  "TCPServer w host port h dir =
     (if 65535 < port then (Inl OverflowError, [Call (Op_tcp_server host port) False])
      else if port = 0 then
        (case ephemeral_port w of
           None \<Rightarrow> (Inl OSError_other, [Call (Op_tcp_server host port) False])
         | Some p \<Rightarrow>
             (Inr \<lparr>server_host = host, server_port = p, server_handler = h,
                   server_directory = dir\<rparr>,
              [Call (Op_tcp_server host port) True]))
      else if address_in_use (bound_sockets w) (host_address host) port then
        (Inl (OSError_AddrInUse port), [Call (Op_tcp_server host port) False])
      else
        (Inr \<lparr>server_host = host, server_port = port, server_handler = h,
              server_directory = dir\<rparr>,
         [Call (Op_tcp_server host port) True]))"

text \<open>html2image.py, lines 30-58.  The socket is bound and listening once the
  constructor of line 45 has returned; the print of line 49 and the start of the
  thread in line 53 come after it, and when one of them raises the function is left
  without closing the server.  The port returned is the one the socket was bound to.\<close>

definition start_http_server :: "world \<Rightarrow> string list \<Rightarrow> nat \<Rightarrow> (nat \<times> tcp_server) io" where
  "start_http_server w root_dir port =
     io_bind (TCPServer w ''localhost'' port SimpleHTTPServerHandler root_dir) (\<lambda>httpd.
     let actual_port = server_port httpd in
     io_bind (io_print w S_print_server_started (Msg_server_started actual_port)) (\<lambda>_.
     io_bind (io_call w S_thread_start Op_thread_start) (\<lambda>_.
     io_bind (io_do (Op_sleep 1000)) (\<lambda>_.
     io_return (actual_port, httpd)))))"

text \<open>html_server.py, lines 38-47.\<close>

definition find_free_port :: "world \<Rightarrow> nat io" where
  "find_free_port w =
     (case ephemeral_port w of
        None \<Rightarrow> (Inl OSError_other, [Call Op_find_free_port False])
      | Some p \<Rightarrow> (Inr p, [Call Op_find_free_port True]))"

text \<open>\<open>s.connect_ex(('localhost', port)) == 0\<close>: a connection to the loopback address
  is accepted by a socket that listens there or on every interface.\<close>

definition is_port_in_use :: "world \<Rightarrow> nat \<Rightarrow> bool io" where
  "is_port_in_use w port =
     io_call_val w S_connect_ex (Op_connect_ex port)
       (address_in_use (listening_sockets w) Loopback port)"

definition urlopen :: "world \<Rightarrow> url \<Rightarrow> nat \<Rightarrow> unit io" where
  "urlopen w u i =
     (if probe_ok w i then (Inr (), [Call (Op_http_get u) True])
      else (Inl URLError, [Call (Op_http_get u) False]))"

text \<open>
  The loop of lines 89-94, \<open>for _ in range(5): try: urlopen(...); break
  except Exception: time.sleep(0.1)\<close>; the last argument counts the rounds left, \<open>i\<close>
  numbers the attempt.
\<close>

fun probe_loop :: "world \<Rightarrow> url \<Rightarrow> nat \<Rightarrow> nat \<Rightarrow> unit io" where
  "probe_loop w u i 0 = io_return ()"
| "probe_loop w u i (Suc n) =
     io_bind (io_try (io_bind (urlopen w u i) (\<lambda>_. io_return True))
                     (\<lambda>e. io_bind (io_do (Op_sleep 100)) (\<lambda>_. io_return False)))
       (\<lambda>broke. if broke then io_return () else probe_loop w u (Suc i) n)"

text \<open>
  html_server.py, lines 49-103.  The context manager takes the body of the caller's
  \<open>with\<close> block as \<open>body\<close>: it runs at the \<open>yield\<close>, inside the \<open>try\<close>, and the exit of
  \<open>with socketserver.TCPServer(...) as httpd\<close> closes the server once more.  The URL
  handed to the body is made of the port that was asked for or found, not of the
  server's address.
\<close>

definition serve_directory ::
  "world \<Rightarrow> string option \<Rightarrow> nat option \<Rightarrow> (url \<Rightarrow> 'a io) \<Rightarrow> 'a io" where
  "serve_directory w directory port body =
     (let directory' = (case directory of None \<Rightarrow> cwd w | Some d \<Rightarrow> abspath_comps (cwd w) d) in
      io_bind (case port of
                 None \<Rightarrow> find_free_port w
               | Some p \<Rightarrow>
                   io_bind (is_port_in_use w p) (\<lambda>used.
                   if used then io_raise (RuntimeError_PortInUse p) else io_return p)) (\<lambda>port'.
      io_bind (TCPServer w [] port' SimpleHTTPServerWithContentTypes directory') (\<lambda>httpd.
      io_finally
        (io_bind (io_call w S_serve_thread_start Op_thread_start) (\<lambda>_.
         let server_url = Url port' [] in
         io_finally
           (io_bind (probe_loop w (Url port' [[]]) 0 5) (\<lambda>_. body server_url))
           (io_bind (io_call w S_httpd_shutdown Op_httpd_shutdown) (\<lambda>_.
            io_call w S_httpd_server_close Op_httpd_server_close))))
        (io_call w S_with_exit_server_close Op_httpd_server_close))))"

subsection \<open>The request handlers\<close>

type_synonym header = "string \<times> string"

text \<open>
  \<open>end_headers\<close> is overridden by \<open>SimpleHTTPServerHandler\<close> (html2image.py, lines 19-24),
  which sends three headers before the inherited method; the class
  \<open>SimpleHTTPServerWithContentTypes\<close> (html_server.py, lines 19-36) inherits it unchanged.
\<close>

definition cors_headers :: "header list" where
  "cors_headers =
     [(''Access-Control-Allow-Origin'', ''*''),
      (''Access-Control-Allow-Methods'', ''GET, POST, OPTIONS''),
      (''Access-Control-Allow-Headers'', ''Origin, Content-Type, Accept'')]"

definition end_headers :: "handler \<Rightarrow> header list \<Rightarrow> header list" where
  "end_headers h buffer =
     (case h of
        SimpleHTTPServerHandler \<Rightarrow> buffer @ cors_headers
      | SimpleHTTPServerWithContentTypes \<Rightarrow> buffer)"

text \<open>The entries \<open>SimpleHTTPServerWithContentTypes.extensions_map\<close> adds to the
  inherited map.\<close>

definition extensions_map :: "(string \<times> string) list" where
  "extensions_map =
     [(''.csv'', ''text/csv''), (''.json'', ''application/json''),
      (''.geojson'', ''application/json''), (''.md'', ''text/markdown'')]"

text \<open>
  Every response of the base class is \<open>send_response(code)\<close>, some \<open>send_header\<close> calls
  and \<open>self.end_headers()\<close>; \<open>sent\<close> is the headers the base class sent itself.
\<close>

definition response_headers :: "handler \<Rightarrow> header list \<Rightarrow> header list" where
  "response_headers h sent = end_headers h sent"

text \<open>The headers of a 200 response to a GET of a file with the given extension.\<close>

definition get_file_headers :: "handler \<Rightarrow> string \<Rightarrow> nat \<Rightarrow> header list" where
  "get_file_headers h ext len =
     response_headers h
       [(''Server'', ''SimpleHTTP''),
        (''Content-type'',
           (case (if h = SimpleHTTPServerWithContentTypes then map_of extensions_map ext else None) of
              Some t \<Rightarrow> t
            | None \<Rightarrow> ''application/octet-stream'')),
        (''Content-Length'', string_of_nat len)]"

section \<open>\<open>convert_html_file_to_image\<close>\<close>

text \<open>\<open>page.evaluate(script)\<close> at a site, returning \<open>v\<close> unless it raises.\<close>

definition evaluate :: "world \<Rightarrow> site \<Rightarrow> js \<Rightarrow> 'a \<Rightarrow> 'a io" where
  "evaluate w s script v = io_call_val w s (Op_evaluate script) v"

text \<open>\<open>requests.get(test_url, timeout=5)\<close>, line 151: the status code, or an exception.\<close>

definition requests_get :: "world \<Rightarrow> url \<Rightarrow> nat io" where
  "requests_get w u =
     (case probe_status w of
        None \<Rightarrow> (Inl RequestException, [Call (Op_http_get u) False])
      | Some c \<Rightarrow> (Inr c, [Call (Op_http_get u) True]))"

text \<open>
  Lines 206-323, the branch \<open>if has_vega:\<close>.  The wait for the chart container is in a
  \<open>try\<close> of its own whose handler only prints under \<open>debug\<close>.  The forced re-render of
  line 306 is not under any condition; the one of line 322 is under
  \<open>if not render_status_after.get('allRendered', False)\<close>.  The reading of the page taken
  by each \<open>window.checkVegaRenderStatus()\<close> is the script run on the document of that
  moment.
\<close>

definition vega_phase :: "world \<Rightarrow> unit io" where
  "vega_phase w =
     io_bind (io_call w S_wait_vega_global Op_wait_for_function) (\<lambda>_.
     io_bind (io_try (io_call w S_wait_vega_container
                        (Op_wait_for_selector ''.vega-embed'' ''attached''))
                     (\<lambda>e. io_return ())) (\<lambda>_.
     io_bind (io_call w S_add_script_tag Op_add_script_tag) (\<lambda>_.
     io_bind (io_call w S_settle_initial (Op_wait_for_timeout 3000)) (\<lambda>_.
     io_bind (evaluate w S_check_status_first JS_checkVegaRenderStatus
                (checkVegaRenderStatus (dom_initial w))) (\<lambda>render_status.
     io_bind (evaluate w S_force_render_first JS_forceRenderCharts ()) (\<lambda>force_render_result.
     io_bind (io_call w S_settle_escalation (Op_wait_for_timeout 8000)) (\<lambda>_.
     io_bind (evaluate w S_check_status_after JS_checkVegaRenderStatus
                (checkVegaRenderStatus (dom_escalated w))) (\<lambda>render_status_after.
     if \<not> allRendered render_status_after then
       io_bind (evaluate w S_force_render_again JS_forceRenderCharts ()) (\<lambda>_.
       io_call w S_settle_again (Op_wait_for_timeout 5000))
     else io_return ()))))))))"

text \<open>Lines 325-334: the wait for images, in a \<open>try\<close> whose handler only prints under
  \<open>debug\<close>.\<close>

definition image_phase :: "world \<Rightarrow> unit io" where
  "image_phase w =
     io_try (io_bind (evaluate w S_eval_has_images JS_has_img (has_img w)) (\<lambda>has_images.
             if has_images then io_call w S_wait_img_visible (Op_wait_for_selector ''img'' ''visible'')
             else io_return ()))
            (\<lambda>e. io_return ())"

text \<open>Lines 170-350, the body of the inner \<open>try\<close>, up to \<open>return output_path\<close>.\<close>

definition page_body :: "world \<Rightarrow> url \<Rightarrow> string \<Rightarrow> string io" where
  "page_body w u output_path =
     io_bind (io_call w S_new_context Op_new_context) (\<lambda>_.
     io_bind (io_call w S_new_page Op_new_page) (\<lambda>_.
     io_bind (io_call w S_goto (Op_goto u)) (\<lambda>_.
     io_bind (io_call w S_wait_load (Op_wait_for_load_state ''load'')) (\<lambda>_.
     io_bind (io_call w S_wait_networkidle (Op_wait_for_load_state ''networkidle'')) (\<lambda>_.
     io_bind (evaluate w S_eval_has_vega JS_has_vega (vega_global w \<or> vega_script_tag w)) (\<lambda>has_vega.
     io_bind (if has_vega then vega_phase w else io_return ()) (\<lambda>_.
     io_bind (image_phase w) (\<lambda>_.
     io_bind (io_call w S_settle_final (Op_wait_for_timeout 5000)) (\<lambda>_.
     io_bind (evaluate w S_eval_scroll_height JS_scrollHeight (scroll_height w)) (\<lambda>height.
     io_bind (io_call w S_set_viewport (Op_set_viewport_size 1600 height)) (\<lambda>_.
     io_bind (io_call w S_screenshot (Op_screenshot output_path)) (\<lambda>_.
     io_return output_path))))))))))))"

text \<open>Lines 352-356, the handler of the inner \<open>try\<close>, and lines 359-363, the handler of
  the outer one: both print their message, print the traceback and \<open>return None\<close>.  An
  exception raised by a handler itself leaves the handler.\<close>

definition except_capture :: "world \<Rightarrow> exn \<Rightarrow> string option io" where
  "except_capture w e =
     io_bind (io_print w S_print_screenshot_error Msg_screenshot_error) (\<lambda>_.
     io_bind (io_call w S_traceback_inner Op_traceback) (\<lambda>_.
     io_return None))"

definition except_outer :: "world \<Rightarrow> exn \<Rightarrow> string option io" where
  "except_outer w e =
     io_bind (io_print w S_print_start_server_error Msg_start_server_error) (\<lambda>_.
     io_bind (io_call w S_traceback_outer Op_traceback) (\<lambda>_.
     io_return None))"

text \<open>Lines 162-358: \<open>with sync_playwright() as playwright\<close>, the launch, and the inner
  \<open>try ... except ... finally: browser.close()\<close>.\<close>

definition browser_section :: "world \<Rightarrow> url \<Rightarrow> string \<Rightarrow> string option io" where
  "browser_section w u output_path =
     io_bind (io_call w S_playwright_start Op_playwright_start) (\<lambda>_.
     io_finally
       (io_bind (io_call w S_launch Op_launch) (\<lambda>_.
        io_finally
          (io_try (io_bind (page_body w u output_path) (\<lambda>p. io_return (Some p)))
                  (except_capture w))
          (io_call w S_browser_close Op_browser_close)))
       (io_call w S_playwright_stop Op_playwright_stop))"

text \<open>
  Lines 148-156, the body of the \<open>try\<close> around the probe: \<open>requests.get\<close> and, when the
  status is not 200, the print of the warning.
\<close>

definition probe_server :: "world \<Rightarrow> nat \<Rightarrow> unit io" where
  "probe_server w port =
     io_bind (requests_get w (Url port [[]])) (\<lambda>status_code.
     if status_code = 200 then io_return ()
     else io_print w S_print_server_abnormal (Msg_server_abnormal status_code))"

text \<open>
  Lines 137-358, what the outer \<open>try\<close> runs once \<open>start_http_server\<close> has returned.
  \<open>relpath\<close> raises \<open>ValueError\<close> on the empty path.  The handler of lines 157-159 prints
  and returns \<open>None\<close> from the whole function when the probe raised.
\<close>

definition served_section :: "world \<Rightarrow> string \<Rightarrow> string \<Rightarrow> nat \<Rightarrow> string option io" where
  "served_section w html_file output_path port =
     io_bind (if html_file = [] then io_raise ValueError_no_path
              else io_return (relpath (abspath_comps (cwd w) html_file) (project_root w))) (\<lambda>rel_path.
     let u = Url port rel_path in
     io_bind (io_call w S_import_requests Op_import_requests) (\<lambda>_.
     io_bind (io_attempt (probe_server w port)) (\<lambda>probed.
     case probed of
       Inl e \<Rightarrow> io_bind (io_print w S_print_cannot_connect Msg_cannot_connect) (\<lambda>_. io_return None)
     | Inr _ \<Rightarrow> browser_section w u output_path)))"

text \<open>Lines 364-373: \<open>if httpd:\<close> with the two calls in a \<open>try\<close> whose bare \<open>except\<close>
  passes.\<close>

definition finally_httpd :: "world \<Rightarrow> unit io" where
  "finally_httpd w =
     io_try (io_bind (io_call w S_httpd_shutdown Op_httpd_shutdown) (\<lambda>_.
             io_call w S_httpd_server_close Op_httpd_server_close))
            (\<lambda>e. io_return ())"

text \<open>Lines 121-123: \<open>if output_path is None: output_path =
  os.path.splitext(html_file)[0] + ".png"\<close>.\<close>

definition resolve_output_path :: "string \<Rightarrow> string option \<Rightarrow> string" where
  "resolve_output_path html_file output_path0 =
     (case output_path0 of
        None \<Rightarrow> splitext_root html_file @ ''.png''
      | Some p \<Rightarrow> p)"

text \<open>
  The calls between the creation of the server and the \<open>return output_path\<close> of a page
  with charts whose exception no handler of the function swallows on the way: all but
  the wait for the chart container, the two calls of the wait for images, and the two
  calls that shut the server down.  (The warning of line 156 is printed, and so can
  raise, only when the status of the probe is not 200; no handler runs on this way.)
\<close>

definition capture_sites :: "site list" where
  "capture_sites =
     [S_print_server_started, S_thread_start, S_import_requests,
      S_playwright_start, S_launch, S_new_context, S_new_page, S_goto, S_wait_load,
      S_wait_networkidle, S_eval_has_vega, S_wait_vega_global, S_add_script_tag,
      S_settle_initial, S_check_status_first, S_force_render_first, S_settle_escalation,
      S_check_status_after, S_force_render_again, S_settle_again, S_settle_final,
      S_eval_scroll_height, S_set_viewport, S_screenshot, S_browser_close,
      S_playwright_stop]"

text \<open>
  Lines 109-373.  \<open>httpd\<close> is \<open>None\<close> until \<open>start_http_server\<close> has returned, so the
  \<open>finally\<close> of the outer \<open>try\<close> does nothing when that call raised and shuts the server
  down in every other case.  The result is \<open>Inr None\<close> for \<open>return None\<close>,
  \<open>Inr (Some p)\<close> for \<open>return output_path\<close>, and \<open>Inl e\<close> when the exception \<open>e\<close> leaves the
  function.
\<close>

definition convert_html_file_to_image ::
  "world \<Rightarrow> string \<Rightarrow> string option \<Rightarrow> string option io" where
  "convert_html_file_to_image w html_file output_path0 =
     (let output_path = resolve_output_path html_file output_path0
      in io_bind (io_attempt (start_http_server w (project_root w) 0)) (\<lambda>started.
         case started of
           Inl e \<Rightarrow> except_outer w e
         | Inr (port, httpd) \<Rightarrow>
             io_finally (io_try (served_section w html_file output_path port) (except_outer w))
                        (finally_httpd w)))"

section \<open>Reading a run\<close>






text \<open>How often a run called \<open>window.forceRenderCharts()\<close>, and how often it asked the
  server's root for a sign of life.\<close>

fun is_force_render :: "event \<Rightarrow> bool" where
  "is_force_render (Call (Op_evaluate JS_forceRenderCharts) b) = True"
| "is_force_render ev = False"

definition force_render_count :: "event list \<Rightarrow> nat" where
  "force_render_count tr = length (filter is_force_render tr)"

fun is_probe :: "event \<Rightarrow> bool" where
  "is_probe (Call (Op_http_get u) b) = True"
| "is_probe ev = False"


fun is_bind_success :: "event \<Rightarrow> bool" where
  "is_bind_success (Call (Op_tcp_server h p) True) = True"
| "is_bind_success ev = False"

section \<open>Sample pages and worlds\<close>

definition chart_pending :: element where
  "chart_pending =
     Element ''html'' [] []
       [Element ''body'' [] []
          [Element ''div'' ''vis1'' [''vega-embed''] []]]"

definition chart_drawn :: element where
  "chart_drawn =
     Element ''html'' [] []
       [Element ''body'' [] []
          [Element ''div'' ''vis1'' [''vega-embed'']
             [Element ''canvas'' [] [''marks''] []]]]"

text \<open>Every call returns, the probes answer 200, and the chart is drawn by the time of
  the second reading.\<close>

definition calm_world :: world where
  "calm_world =
     \<lparr>cwd = [''srv'', ''app''],
      project_root = [''srv'', ''app''],
      bound_sockets = [(Wildcard, 8000)],
      listening_sockets = [(Wildcard, 8000)],
      ephemeral_port = Some 49152,
      site_ok = (\<lambda>s. True),
      probe_status = Some 200,
      probe_ok = (\<lambda>i. True),
      vega_global = True,
      vega_script_tag = True,
      dom_initial = chart_pending,
      dom_escalated = chart_drawn,
      has_img = False,
      scroll_height = 2400\<rparr>"

text \<open>The chart never draws.\<close>

definition stuck_world :: world where
  "stuck_world = calm_world\<lparr>dom_escalated := chart_pending\<rparr>"

text \<open>The liveness probe of line 151 cannot connect.\<close>

definition unreachable_world :: world where
  "unreachable_world = calm_world\<lparr>probe_status := None\<rparr>"

text \<open>The screenshot of line 346 raises.\<close>

definition capture_fails_world :: world where
  "capture_fails_world = calm_world\<lparr>site_ok := (\<lambda>s. s \<noteq> S_screenshot)\<rparr>"

text \<open>No probe of \<open>serve_directory\<close> is ever answered.\<close>

definition silent_world :: world where
  "silent_world = calm_world\<lparr>probe_ok := (\<lambda>i. False)\<rparr>"

text \<open>The standard output cannot take the emoji of line 49, as with the encoding GBK
  or ASCII; every other call returns.\<close>

definition narrow_console_world :: world where
  "narrow_console_world = calm_world\<lparr>site_ok := (\<lambda>s. s \<noteq> S_print_server_started)\<rparr>"

text \<open>\<open>httpd.shutdown()\<close> raises.\<close>

definition shutdown_fails_world :: world where
  "shutdown_fails_world = calm_world\<lparr>site_ok := (\<lambda>s. s \<noteq> S_httpd_shutdown)\<rparr>"

text \<open>Port 8000 is held by a socket on another interface only.\<close>

definition other_interface_world :: world where
  "other_interface_world =
     calm_world\<lparr>bound_sockets := [(Other ''192.168.1.5'', 8000)],
                listening_sockets := [(Other ''192.168.1.5'', 8000)]\<rparr>"

section \<open>Readiness detection\<close>

lemma forEach_container_fst:
  "fst (forEach_container cs i (allR, ds)) =
     (allR \<and> list_all (\<lambda>c. querySelector (Tag ''canvas'') c \<noteq> None
                          \<or> querySelector (Tag ''svg'') c \<noteq> None
                          \<or> querySelector (Class ''marks'') c \<noteq> None) cs)"
  by (induction cs arbitrary: i allR ds) (auto simp: Let_def)

lemma forEach_container_snd:
  "map (\<lambda>d. (hasCanvas d, hasSVG d, hasMarks d)) (snd (forEach_container cs i (allR, ds))) =
     map (\<lambda>d. (hasCanvas d, hasSVG d, hasMarks d)) ds @
     map (\<lambda>c. (querySelector (Tag ''canvas'') c \<noteq> None,
               querySelector (Tag ''svg'') c \<noteq> None,
               querySelector (Class ''marks'') c \<noteq> None)) cs"
  by (induction cs arbitrary: i allR ds) (auto simp: Let_def)

lemma querySelectorAll_chart_drawn:
  "querySelectorAll (Class ''vega-embed'') chart_drawn =
     [Element ''div'' ''vis1'' [''vega-embed''] [Element ''canvas'' [] [''marks''] []]]"
  by (simp add: querySelectorAll_def chart_drawn_def)

lemma querySelectorAll_chart_pending:
  "querySelectorAll (Class ''vega-embed'') chart_pending =
     [Element ''div'' ''vis1'' [''vega-embed''] []]"
  by (simp add: querySelectorAll_def chart_pending_def)

text \<open>
  Claim C5.  A container counts as rendered exactly when at least one of its three
  signals is present (a \<open>canvas\<close> element, an \<open>svg\<close> element or a \<open>.marks\<close> subtree), and
  \<open>allRendered\<close> is true exactly when every container the script found counts as
  rendered.  The flags reported in \<open>details\<close> are the three signals of each container,
  in the order the containers were found.
\<close>

theorem checkVegaRenderStatus_any_signal_all_containers:
  "allRendered (checkVegaRenderStatus document) =
     (\<forall>c \<in> set (querySelectorAll (Class ''vega-embed'') document).
        querySelector (Tag ''canvas'') c \<noteq> None
        \<or> querySelector (Tag ''svg'') c \<noteq> None
        \<or> querySelector (Class ''marks'') c \<noteq> None)
   \<and> map (\<lambda>d. (hasCanvas d, hasSVG d, hasMarks d)) (details (checkVegaRenderStatus document)) =
       map (\<lambda>c. (querySelector (Tag ''canvas'') c \<noteq> None,
                 querySelector (Tag ''svg'') c \<noteq> None,
                 querySelector (Class ''marks'') c \<noteq> None))
           (querySelectorAll (Class ''vega-embed'') document)"
  by (simp add: checkVegaRenderStatus_def Let_def forEach_container_fst forEach_container_snd
        list_all_iff)

theorem checkVegaRenderStatus_any_signal_all_containers_witness:
  "allRendered (checkVegaRenderStatus chart_drawn)
   \<and> \<not> allRendered (checkVegaRenderStatus chart_pending)"
  using checkVegaRenderStatus_any_signal_all_containers [of chart_drawn]
        checkVegaRenderStatus_any_signal_all_containers [of chart_pending]
  by (simp add: querySelectorAll_chart_drawn querySelectorAll_chart_pending querySelector_def)

section \<open>Laws of the effect combinators\<close>

lemma fst_io_bind: "fst (io_bind m f) = (case fst m of Inl e \<Rightarrow> Inl e | Inr x \<Rightarrow> fst (f x))"
  by (simp add: io_bind_def split: prod.splits sum.splits)

lemma snd_io_bind: "snd (io_bind m f) = snd m @ (case fst m of Inl e \<Rightarrow> [] | Inr x \<Rightarrow> snd (f x))"
  by (simp add: io_bind_def split: prod.splits sum.splits)

lemma fst_io_try: "fst (io_try m h) = (case fst m of Inl e \<Rightarrow> fst (h e) | Inr x \<Rightarrow> Inr x)"
  by (simp add: io_try_def split: prod.splits sum.splits)

lemma snd_io_try: "snd (io_try m h) = snd m @ (case fst m of Inl e \<Rightarrow> snd (h e) | Inr x \<Rightarrow> [])"
  by (simp add: io_try_def split: prod.splits sum.splits)

lemma fst_io_finally: "fst (io_finally m fin) = (case fst fin of Inl e \<Rightarrow> Inl e | Inr u \<Rightarrow> fst m)"
  by (simp add: io_finally_def split: prod.splits sum.splits)

lemma snd_io_finally: "snd (io_finally m fin) = snd m @ snd fin"
  by (simp add: io_finally_def split: prod.splits sum.splits)

lemma fst_io_attempt: "fst (io_attempt m) = Inr (fst m)"
  by (simp add: io_attempt_def split: prod.splits)

lemma snd_io_attempt: "snd (io_attempt m) = snd m"
  by (simp add: io_attempt_def split: prod.splits)

lemma fst_io_call_val: "fst (io_call_val w s opn v) = (if site_ok w s then Inr v else Inl (Raised_at s))"
  by (simp add: io_call_val_def)

lemma snd_io_call_val: "snd (io_call_val w s opn v) = [Call opn (site_ok w s)]"
  by (simp add: io_call_val_def)

lemmas io_simps = fst_io_bind snd_io_bind fst_io_try snd_io_try fst_io_finally snd_io_finally
  fst_io_attempt snd_io_attempt fst_io_call_val snd_io_call_val
  io_call_def io_print_def evaluate_def io_return_def io_raise_def io_do_def

section \<open>The page phases\<close>





lemma image_phase_force: "filter is_force_render (snd (image_phase w)) = []"
  by (simp add: image_phase_def io_simps)

lemma image_phase_fst: "fst (image_phase w) = Inr ()"
  by (simp add: image_phase_def io_simps)




lemma page_body_force:
  "filter is_force_render (snd (page_body w u out)) =
     (case fst (io_bind (io_call w S_new_context Op_new_context) (\<lambda>_.
     io_bind (io_call w S_new_page Op_new_page) (\<lambda>_.
     io_bind (io_call w S_goto (Op_goto u)) (\<lambda>_.
     io_bind (io_call w S_wait_load (Op_wait_for_load_state ''load'')) (\<lambda>_.
     io_bind (io_call w S_wait_networkidle (Op_wait_for_load_state ''networkidle'')) (\<lambda>_.
     evaluate w S_eval_has_vega JS_has_vega (vega_global w \<or> vega_script_tag w)))))))
      of Inr True \<Rightarrow> filter is_force_render (snd (vega_phase w)) | _ \<Rightarrow> [])"
  by (simp add: page_body_def io_simps image_phase_force image_phase_fst split: sum.splits)

section \<open>The sections of the conversion\<close>

lemma start_fst:
  "fst (start_http_server w root 0) =
     (case ephemeral_port w of
        None \<Rightarrow> Inl OSError_other
      | Some p \<Rightarrow>
          if \<not> site_ok w S_print_server_started then Inl (Raised_at S_print_server_started)
          else if \<not> site_ok w S_thread_start then Inl (Raised_at S_thread_start)
          else Inr (p, \<lparr>server_host = ''localhost'', server_port = p,
                         server_handler = SimpleHTTPServerHandler, server_directory = root\<rparr>))"
  by (simp add: start_http_server_def TCPServer_def io_simps split: option.splits)

lemma start_snd:
  "snd (start_http_server w root 0) =
     (case ephemeral_port w of
        None \<Rightarrow> [Call (Op_tcp_server ''localhost'' 0) False]
      | Some p \<Rightarrow>
          Call (Op_tcp_server ''localhost'' 0) True
          # Call (Op_print (Msg_server_started p)) (site_ok w S_print_server_started)
          # (if site_ok w S_print_server_started
             then Call Op_thread_start (site_ok w S_thread_start)
                  # (if site_ok w S_thread_start then [Call (Op_sleep 1000) True] else [])
             else []))"
  by (simp add: start_http_server_def TCPServer_def io_simps split: option.splits)

lemma except_capture_fst:
  "fst (except_capture w e) =
     (if \<not> site_ok w S_print_screenshot_error then Inl (Raised_at S_print_screenshot_error)
      else if \<not> site_ok w S_traceback_inner then Inl (Raised_at S_traceback_inner)
      else Inr None)"
  by (simp add: except_capture_def io_simps)

lemma except_capture_snd:
  "snd (except_capture w e) =
     Call (Op_print Msg_screenshot_error) (site_ok w S_print_screenshot_error)
     # (if site_ok w S_print_screenshot_error
        then [Call Op_traceback (site_ok w S_traceback_inner)] else [])"
  by (simp add: except_capture_def io_simps)

lemma except_outer_fst:
  "fst (except_outer w e) =
     (if \<not> site_ok w S_print_start_server_error then Inl (Raised_at S_print_start_server_error)
      else if \<not> site_ok w S_traceback_outer then Inl (Raised_at S_traceback_outer)
      else Inr None)"
  by (simp add: except_outer_def io_simps)

lemma except_outer_snd:
  "snd (except_outer w e) =
     Call (Op_print Msg_start_server_error) (site_ok w S_print_start_server_error)
     # (if site_ok w S_print_start_server_error
        then [Call Op_traceback (site_ok w S_traceback_outer)] else [])"
  by (simp add: except_outer_def io_simps)

lemma browser_section_fst:
  "fst (browser_section w u out) =
     (if \<not> site_ok w S_playwright_start then Inl (Raised_at S_playwright_start)
      else if \<not> site_ok w S_playwright_stop then Inl (Raised_at S_playwright_stop)
      else if \<not> site_ok w S_launch then Inl (Raised_at S_launch)
      else if \<not> site_ok w S_browser_close then Inl (Raised_at S_browser_close)
      else (case fst (page_body w u out) of
              Inl e \<Rightarrow> fst (except_capture w e)
            | Inr p \<Rightarrow> Inr (Some p)))"
  by (simp add: browser_section_def io_simps split: sum.splits)

lemma browser_section_snd:
  "snd (browser_section w u out) =
     Call Op_playwright_start (site_ok w S_playwright_start)
     # (if site_ok w S_playwright_start
        then Call Op_launch (site_ok w S_launch)
             # (if site_ok w S_launch
                then snd (page_body w u out)
                     @ (case fst (page_body w u out) of
                          Inl e \<Rightarrow> snd (except_capture w e)
                        | Inr p \<Rightarrow> [])
                     @ [Call Op_browser_close (site_ok w S_browser_close)]
                else [])
             @ [Call Op_playwright_stop (site_ok w S_playwright_stop)]
        else [])"
  by (simp add: browser_section_def io_simps split: sum.splits)

lemma probe_server_fst:
  "fst (probe_server w port) =
     (case probe_status w of
        None \<Rightarrow> Inl RequestException
      | Some c \<Rightarrow>
          if c = 200 \<or> site_ok w S_print_server_abnormal then Inr ()
          else Inl (Raised_at S_print_server_abnormal))"
  by (simp add: probe_server_def requests_get_def io_simps split: option.splits)

lemma probe_server_snd:
  "snd (probe_server w port) =
     (case probe_status w of
        None \<Rightarrow> [Call (Op_http_get (Url port [[]])) False]
      | Some c \<Rightarrow>
          Call (Op_http_get (Url port [[]])) True
          # (if c = 200 then []
             else [Call (Op_print (Msg_server_abnormal c)) (site_ok w S_print_server_abnormal)]))"
  by (simp add: probe_server_def requests_get_def io_simps split: option.splits)

lemma served_section_fst:
  "fst (served_section w html_file out port) =
     (if html_file = [] then Inl ValueError_no_path
      else if \<not> site_ok w S_import_requests then Inl (Raised_at S_import_requests)
      else (case fst (probe_server w port) of
              Inl e \<Rightarrow> (if site_ok w S_print_cannot_connect then Inr None
                        else Inl (Raised_at S_print_cannot_connect))
            | Inr x \<Rightarrow> fst (browser_section w
                 (Url port (relpath (abspath_comps (cwd w) html_file) (project_root w))) out)))"
  by (simp add: served_section_def io_simps Let_def split: sum.splits)

lemma served_section_snd:
  "snd (served_section w html_file out port) =
     (if html_file = [] then []
      else Call Op_import_requests (site_ok w S_import_requests)
           # (if site_ok w S_import_requests
              then snd (probe_server w port)
                   @ (case fst (probe_server w port) of
                        Inl e \<Rightarrow> [Call (Op_print Msg_cannot_connect) (site_ok w S_print_cannot_connect)]
                      | Inr x \<Rightarrow> snd (browser_section w
                           (Url port (relpath (abspath_comps (cwd w) html_file) (project_root w)))
                           out))
              else []))"
  by (simp add: served_section_def io_simps Let_def split: sum.splits)

lemma finally_httpd_fst: "fst (finally_httpd w) = Inr ()"
  by (simp add: finally_httpd_def io_simps)

lemma finally_httpd_snd:
  "snd (finally_httpd w) =
     Call Op_httpd_shutdown (site_ok w S_httpd_shutdown)
     # (if site_ok w S_httpd_shutdown
        then [Call Op_httpd_server_close (site_ok w S_httpd_server_close)] else [])"
  by (simp add: finally_httpd_def io_simps)

lemma convert_fst:
  "fst (convert_html_file_to_image w html_file output_path) =
     (case fst (start_http_server w (project_root w) 0) of
        Inl e \<Rightarrow> fst (except_outer w e)
      | Inr started \<Rightarrow>
          (case fst (served_section w html_file (resolve_output_path html_file output_path)
                       (fst started)) of
             Inl e \<Rightarrow> fst (except_outer w e)
           | Inr r \<Rightarrow> Inr r))"
  by (simp add: convert_html_file_to_image_def finally_httpd_fst io_simps Let_def
        split: sum.splits prod.splits)

lemma convert_snd:
  "snd (convert_html_file_to_image w html_file output_path) =
     snd (start_http_server w (project_root w) 0)
     @ (case fst (start_http_server w (project_root w) 0) of
          Inl e \<Rightarrow> snd (except_outer w e)
        | Inr started \<Rightarrow>
            snd (served_section w html_file (resolve_output_path html_file output_path)
                   (fst started))
            @ (case fst (served_section w html_file (resolve_output_path html_file output_path)
                           (fst started)) of
                 Inl e \<Rightarrow> snd (except_outer w e)
               | Inr r \<Rightarrow> [])
            @ snd (finally_httpd w))"
  by (simp add: convert_html_file_to_image_def io_simps Let_def split: sum.splits prod.splits)

section \<open>Forced re-renders\<close>

lemma vega_phase_count_le: "length (filter is_force_render (snd (vega_phase w))) \<le> 2"
  by (simp add: vega_phase_def io_simps)

lemma vega_phase_count_two:
  "length (filter is_force_render (snd (vega_phase w))) = 2 \<Longrightarrow>
     \<not> allRendered (checkVegaRenderStatus (dom_escalated w))"
  by (simp add: vega_phase_def io_simps split: if_splits)

lemma vega_phase_count_ok:
  "fst (vega_phase w) = Inr () \<Longrightarrow>
     length (filter is_force_render (snd (vega_phase w))) =
       (if allRendered (checkVegaRenderStatus (dom_escalated w)) then 1 else 2)"
  by (simp add: vega_phase_def io_simps split: if_splits)

lemma page_body_force_cases:
  "filter is_force_render (snd (page_body w u out)) = []
   \<or> filter is_force_render (snd (page_body w u out)) = filter is_force_render (snd (vega_phase w))"
  by (simp add: page_body_force io_simps split: sum.splits bool.splits)

lemma page_body_success:
  "fst (page_body w u out) = Inr p \<Longrightarrow> vega_global w \<or> vega_script_tag w \<Longrightarrow>
     fst (vega_phase w) = Inr ()
     \<and> filter is_force_render (snd (page_body w u out)) = filter is_force_render (snd (vega_phase w))"
  by (simp add: page_body_def io_simps image_phase_force image_phase_fst
        split: sum.splits if_splits)

lemma start_force: "filter is_force_render (snd (start_http_server w root 0)) = []"
  by (simp add: start_snd split: option.splits)

lemma browser_section_force:
  "filter is_force_render (snd (browser_section w u out)) =
     (if site_ok w S_playwright_start \<and> site_ok w S_launch
      then filter is_force_render (snd (page_body w u out)) else [])"
  by (simp add: browser_section_snd except_capture_snd split: sum.splits)

lemma served_section_force:
  "filter is_force_render (snd (served_section w html_file out port)) =
     (if html_file \<noteq> [] \<and> site_ok w S_import_requests \<and> \<not> isl (fst (probe_server w port))
      then filter is_force_render (snd (browser_section w
             (Url port (relpath (abspath_comps (cwd w) html_file) (project_root w))) out))
      else [])"
  by (simp add: served_section_snd probe_server_snd split: sum.splits option.splits)

lemma convert_force:
  "filter is_force_render (snd (convert_html_file_to_image w html_file output_path)) =
     (case fst (start_http_server w (project_root w) 0) of
        Inl e \<Rightarrow> []
      | Inr started \<Rightarrow>
          filter is_force_render
            (snd (served_section w html_file (resolve_output_path html_file output_path)
                    (fst started))))"
  by (simp add: convert_snd start_force except_outer_snd finally_httpd_snd split: sum.splits)

lemma convert_force_cases:
  "filter is_force_render (snd (convert_html_file_to_image w html_file output_path)) = []
   \<or> filter is_force_render (snd (convert_html_file_to_image w html_file output_path))
       = filter is_force_render (snd (vega_phase w))"
  using page_body_force_cases
  by (simp add: convert_force served_section_force browser_section_force split: sum.splits)

lemma convert_success:
  assumes "fst (convert_html_file_to_image w html_file output_path) = Inr (Some p)"
  shows "\<exists>started. fst (start_http_server w (project_root w) 0) = Inr started
           \<and> html_file \<noteq> [] \<and> site_ok w S_import_requests
           \<and> \<not> isl (fst (probe_server w (fst started)))
           \<and> site_ok w S_playwright_start \<and> site_ok w S_launch
           \<and> fst (page_body w
                     (Url (fst started) (relpath (abspath_comps (cwd w) html_file) (project_root w)))
                     (resolve_output_path html_file output_path)) = Inr p"
  using assms
  by (auto simp add: convert_fst served_section_fst browser_section_fst except_outer_fst
        except_capture_fst
        split: sum.splits if_splits)

lemma convert_success_force:
  assumes "fst (convert_html_file_to_image w html_file output_path) = Inr (Some p)"
    and "vega_global w \<or> vega_script_tag w"
  shows "fst (vega_phase w) = Inr ()
         \<and> filter is_force_render (snd (convert_html_file_to_image w html_file output_path))
             = filter is_force_render (snd (vega_phase w))"
proof -
  from convert_success [OF assms(1)] obtain started where
    h: "fst (start_http_server w (project_root w) 0) = Inr started"
       "html_file \<noteq> []" "site_ok w S_import_requests"
       "\<not> isl (fst (probe_server w (fst started)))"
       "site_ok w S_playwright_start" "site_ok w S_launch"
       "fst (page_body w
               (Url (fst started) (relpath (abspath_comps (cwd w) html_file) (project_root w)))
               (resolve_output_path html_file output_path)) = Inr p"
    by blast
  from page_body_success [OF h(7) assms(2)] h show ?thesis
    by (simp add: convert_force served_section_force browser_section_force)
qed

section \<open>Sample runs\<close>

lemma pending_status: "\<not> allRendered (checkVegaRenderStatus chart_pending)"
  by (simp add: checkVegaRenderStatus_def querySelectorAll_chart_pending querySelector_def)

lemma drawn_status: "allRendered (checkVegaRenderStatus chart_drawn)"
  by (simp add: checkVegaRenderStatus_def querySelectorAll_chart_drawn querySelector_def)

lemma report_output_path:
  "resolve_output_path ''/srv/app/out/report.html'' None = ''/srv/app/out/report.png''"
  by (simp add: resolve_output_path_def splitext_root_def)

lemma report_relpath:
  "relpath (abspath_comps [''srv'', ''app''] ''/srv/app/out/report.html'') [''srv'', ''app'']
     = [''out'', ''report.html'']"
  by (simp add: abspath_comps_def relpath_def)

lemmas sample_worlds =
  calm_world_def stuck_world_def unreachable_world_def capture_fails_world_def silent_world_def
  narrow_console_world_def shutdown_fails_world_def other_interface_world_def

lemma stuck_run_result:
  "fst (convert_html_file_to_image stuck_world ''/srv/app/out/report.html'' None)
     = Inr (Some ''/srv/app/out/report.png'')"
  by (simp add: convert_fst start_fst served_section_fst probe_server_fst browser_section_fst
        page_body_def vega_phase_def image_phase_fst io_simps sample_worlds report_output_path
        pending_status)

lemma calm_run_result:
  "fst (convert_html_file_to_image calm_world ''/srv/app/out/report.html'' None)
     = Inr (Some ''/srv/app/out/report.png'')"
  by (simp add: convert_fst start_fst served_section_fst probe_server_fst browser_section_fst
        page_body_def vega_phase_def image_phase_fst io_simps sample_worlds report_output_path
        drawn_status)

lemma stuck_run_force:
  "filter is_force_render
     (snd (convert_html_file_to_image stuck_world ''/srv/app/out/report.html'' None))
   = [Call (Op_evaluate JS_forceRenderCharts) True, Call (Op_evaluate JS_forceRenderCharts) True]"
  by (simp add: convert_force start_fst served_section_force probe_server_fst
        browser_section_force page_body_force vega_phase_def io_simps sample_worlds
        pending_status)

section \<open>The claims about the conversion\<close>

text \<open>
  Claim C1, as the code has it.  \<open>window.forceRenderCharts()\<close> is called at most twice
  in one call of \<open>convert_html_file_to_image\<close>, never a third time.  A second call
  happens only when the reading taken after the 8 second settle delay still reports
  \<open>allRendered\<close> false (line 319), and a call that returns the image path for a page
  with the chart library has made exactly one forced re-render when that reading was
  \<open>allRendered\<close> and exactly two when it was not.
\<close>

theorem force_render_at_most_twice:
  "force_render_count (snd (convert_html_file_to_image w html_file output_path)) \<le> 2
   \<and> (force_render_count (snd (convert_html_file_to_image w html_file output_path)) = 2
        \<longrightarrow> \<not> allRendered (checkVegaRenderStatus (dom_escalated w)))
   \<and> (fst (convert_html_file_to_image w html_file output_path) = Inr (Some p)
        \<and> (vega_global w \<or> vega_script_tag w)
        \<longrightarrow> force_render_count (snd (convert_html_file_to_image w html_file output_path)) =
              (if allRendered (checkVegaRenderStatus (dom_escalated w)) then 1 else 2))"
proof -
  let ?tr = "snd (convert_html_file_to_image w html_file output_path)"
  from convert_force_cases [of w html_file output_path]
  have a: "force_render_count ?tr \<le> 2"
    unfolding force_render_count_def using vega_phase_count_le [of w] by auto
  from convert_force_cases [of w html_file output_path]
  have b: "force_render_count ?tr = 2 \<longrightarrow> \<not> allRendered (checkVegaRenderStatus (dom_escalated w))"
    unfolding force_render_count_def using vega_phase_count_two [of w] by auto
  have c: "fst (convert_html_file_to_image w html_file output_path) = Inr (Some p)
        \<and> (vega_global w \<or> vega_script_tag w)
        \<longrightarrow> force_render_count ?tr =
              (if allRendered (checkVegaRenderStatus (dom_escalated w)) then 1 else 2)"
  proof
    assume h: "fst (convert_html_file_to_image w html_file output_path) = Inr (Some p)
        \<and> (vega_global w \<or> vega_script_tag w)"
    then have "fst (vega_phase w) = Inr ()
         \<and> filter is_force_render ?tr = filter is_force_render (snd (vega_phase w))"
      using convert_success_force [of w html_file output_path p] by blast
    then show "force_render_count ?tr =
              (if allRendered (checkVegaRenderStatus (dom_escalated w)) then 1 else 2)"
      unfolding force_render_count_def using vega_phase_count_ok [of w] by simp
  qed
  from a b c show ?thesis by blast
qed

text \<open>
  Claim C1 as stated, at most one forced re-render for each attempt, fails: on a page
  whose chart is not drawn after the initial settle delay and stays undrawn, lines 306
  and 322 both run.
\<close>

theorem force_render_twice_counterexample:
  "\<not> allRendered (checkVegaRenderStatus (dom_initial stuck_world))
   \<and> \<not> force_render_count
         (snd (convert_html_file_to_image stuck_world ''/srv/app/out/report.html'' None)) \<le> 1"
proof -
  have "dom_initial stuck_world = chart_pending"
    by (simp add: sample_worlds)
  then show ?thesis
    by (simp add: force_render_count_def stuck_run_force pending_status)
qed

theorem force_render_at_most_twice_witness:
  "force_render_count
     (snd (convert_html_file_to_image stuck_world ''/srv/app/out/report.html'' None)) = 2
   \<and> force_render_count
       (snd (convert_html_file_to_image calm_world ''/srv/app/out/report.html'' None)) = 1"
proof -
  have v: "vega_global stuck_world" "vega_global calm_world"
    by (simp_all add: sample_worlds)
  have d: "\<not> allRendered (checkVegaRenderStatus (dom_escalated stuck_world))"
          "allRendered (checkVegaRenderStatus (dom_escalated calm_world))"
    by (simp_all add: sample_worlds pending_status drawn_status)
  from force_render_at_most_twice
         [of stuck_world "''/srv/app/out/report.html''" None "''/srv/app/out/report.png''"]
       stuck_run_result d(1) v(1)
  have a: "force_render_count
     (snd (convert_html_file_to_image stuck_world ''/srv/app/out/report.html'' None)) = 2"
    by simp
  from force_render_at_most_twice
         [of calm_world "''/srv/app/out/report.html''" None "''/srv/app/out/report.png''"]
       calm_run_result d(2) v(2)
  have b: "force_render_count
       (snd (convert_html_file_to_image calm_world ''/srv/app/out/report.html'' None)) = 1"
    by simp
  from a b show ?thesis by simp
qed

lemma page_body_all_ok:
  assumes "\<forall>s \<in> set capture_sites. site_ok w s"
  shows "fst (page_body w u out) = Inr out"
    and "Call (Op_screenshot out) True \<in> set (snd (page_body w u out))"
proof -
  from assms have ok:
    "site_ok w S_new_context" "site_ok w S_new_page" "site_ok w S_goto" "site_ok w S_wait_load"
    "site_ok w S_wait_networkidle" "site_ok w S_eval_has_vega" "site_ok w S_wait_vega_global"
    "site_ok w S_add_script_tag" "site_ok w S_settle_initial" "site_ok w S_check_status_first"
    "site_ok w S_force_render_first" "site_ok w S_settle_escalation"
    "site_ok w S_check_status_after" "site_ok w S_force_render_again" "site_ok w S_settle_again"
    "site_ok w S_settle_final" "site_ok w S_eval_scroll_height" "site_ok w S_set_viewport"
    "site_ok w S_screenshot"
    by (simp_all add: capture_sites_def)
  have v: "fst (vega_phase w) = Inr ()"
    using ok by (simp add: vega_phase_def io_simps)
  show "fst (page_body w u out) = Inr out"
    using ok v by (simp add: page_body_def io_simps image_phase_fst)
  show "Call (Op_screenshot out) True \<in> set (snd (page_body w u out))"
    using ok v by (simp add: page_body_def io_simps image_phase_fst)
qed

lemma convert_raises_only_from_outer_handler:
  "site_ok w S_print_start_server_error \<Longrightarrow> site_ok w S_traceback_outer \<Longrightarrow>
     \<exists>r. fst (convert_html_file_to_image w html_file output_path) = Inr r"
  by (simp add: convert_fst except_outer_fst split: sum.splits)

text \<open>
  Claim C4.  The only calls whose exception can leave \<open>convert_html_file_to_image\<close> are
  the print and the traceback of its outer handler (lines 360-362): when these two
  return, every run ends in a returned value.  When the reading taken after the forced
  re-render and its settle delay still reports \<open>allRendered\<close> false, and the server
  starts, the probe gets an answer and no call on the way to the screenshot raises, the
  function forces a second re-render, takes the full-page screenshot and returns the
  output image path; it does not raise and does not return \<open>None\<close>.
\<close>

theorem timed_out_run_still_captures:
  "(site_ok w S_print_start_server_error \<and> site_ok w S_traceback_outer
      \<longrightarrow> (\<exists>r. fst (convert_html_file_to_image w html_file output_path) = Inr r))
   \<and> (ephemeral_port w = Some port \<and> html_file \<noteq> [] \<and> probe_status w = Some c
        \<and> (c = 200 \<or> site_ok w S_print_server_abnormal)
        \<and> (\<forall>s \<in> set capture_sites. site_ok w s)
        \<and> (vega_global w \<or> vega_script_tag w)
        \<and> \<not> allRendered (checkVegaRenderStatus (dom_escalated w))
      \<longrightarrow> fst (convert_html_file_to_image w html_file output_path)
            = Inr (Some (resolve_output_path html_file output_path))
          \<and> Call (Op_screenshot (resolve_output_path html_file output_path)) True
              \<in> set (snd (convert_html_file_to_image w html_file output_path))
          \<and> force_render_count (snd (convert_html_file_to_image w html_file output_path)) = 2)"
proof (intro conjI impI)
  assume "site_ok w S_print_start_server_error \<and> site_ok w S_traceback_outer"
  then show "\<exists>r. fst (convert_html_file_to_image w html_file output_path) = Inr r"
    by (simp add: convert_raises_only_from_outer_handler)
next
  assume h: "ephemeral_port w = Some port \<and> html_file \<noteq> [] \<and> probe_status w = Some c
        \<and> (c = 200 \<or> site_ok w S_print_server_abnormal)
        \<and> (\<forall>s \<in> set capture_sites. site_ok w s)
        \<and> (vega_global w \<or> vega_script_tag w)
        \<and> \<not> allRendered (checkVegaRenderStatus (dom_escalated w))"
  let ?out = "resolve_output_path html_file output_path"
  let ?u = "Url port (relpath (abspath_comps (cwd w) html_file) (project_root w))"
  from h have all: "\<forall>s \<in> set capture_sites. site_ok w s" by blast
  then have ok: "site_ok w S_print_server_started" "site_ok w S_thread_start"
    "site_ok w S_import_requests" "site_ok w S_playwright_start" "site_ok w S_launch"
    "site_ok w S_browser_close" "site_ok w S_playwright_stop"
    by (simp_all add: capture_sites_def)
  note pb = page_body_all_ok [OF all, where u = ?u and out = ?out]
  have st: "fst (start_http_server w (project_root w) 0) =
              Inr (port, \<lparr>server_host = ''localhost'', server_port = port,
                           server_handler = SimpleHTTPServerHandler,
                           server_directory = project_root w\<rparr>)"
    using h ok by (simp add: start_fst)
  have pr: "fst (probe_server w port) = Inr ()"
    using h by (auto simp add: probe_server_fst)
  show res: "fst (convert_html_file_to_image w html_file output_path) = Inr (Some ?out)"
    using h ok pb(1) st pr by (simp add: convert_fst served_section_fst browser_section_fst)
  have "Call (Op_screenshot ?out) True \<in> set (snd (browser_section w ?u ?out))"
    using ok pb by (simp add: browser_section_snd)
  then show "Call (Op_screenshot ?out) True
              \<in> set (snd (convert_html_file_to_image w html_file output_path))"
    using h ok st pr by (simp add: convert_snd served_section_snd)
  from convert_success_force [OF res] h
  have "fst (vega_phase w) = Inr ()"
    and "filter is_force_render (snd (convert_html_file_to_image w html_file output_path))
           = filter is_force_render (snd (vega_phase w))"
    by blast+
  then show "force_render_count (snd (convert_html_file_to_image w html_file output_path)) = 2"
    using vega_phase_count_ok [of w] h by (simp add: force_render_count_def)
qed

theorem timed_out_run_still_captures_witness:
  "fst (convert_html_file_to_image stuck_world ''/srv/app/out/report.html'' None)
     = Inr (Some ''/srv/app/out/report.png'')
   \<and> Call (Op_screenshot ''/srv/app/out/report.png'') True
       \<in> set (snd (convert_html_file_to_image stuck_world ''/srv/app/out/report.html'' None))
   \<and> force_render_count
       (snd (convert_html_file_to_image stuck_world ''/srv/app/out/report.html'' None)) = 2"
proof -
  have h: "ephemeral_port stuck_world = Some 49152"
          "''/srv/app/out/report.html'' \<noteq> []"
          "probe_status stuck_world = Some 200"
          "\<forall>s \<in> set capture_sites. site_ok stuck_world s"
          "vega_global stuck_world \<or> vega_script_tag stuck_world"
          "\<not> allRendered (checkVegaRenderStatus (dom_escalated stuck_world))"
    by (simp_all add: sample_worlds pending_status)
  from timed_out_run_still_captures
         [of stuck_world "''/srv/app/out/report.html''" None 49152 200] h
  show ?thesis by (simp add: report_output_path)
qed

section \<open>What a run acquires and releases\<close>











section \<open>What the caller is told\<close>

































section \<open>The claims about the content servers\<close>

lemma start_http_server_no_probe:
  "filter is_probe (snd (start_http_server w root_dir port)) = []"
  by (simp add: start_http_server_def TCPServer_def io_simps Let_def split: option.splits)

lemma probe_loop_fst: "fst (probe_loop w u i n) = Inr ()"
  by (induction n arbitrary: i) (simp_all add: io_simps urlopen_def)

lemma probe_loop_count: "length (filter is_probe (snd (probe_loop w u i n))) \<le> n"
  by (induction n arbitrary: i) (simp_all add: io_simps urlopen_def le_SucI)

lemma probe_loop_stops:
  "probe_ok w i \<Longrightarrow> snd (probe_loop w u i (Suc n)) = [Call (Op_http_get u) True]"
  by (simp add: io_simps urlopen_def)

lemma serve_directory_auto_snd:
  assumes "ephemeral_port w = Some p" "0 < p" "p \<le> 65535"
    "\<not> address_in_use (bound_sockets w) Wildcard p" "site_ok w S_serve_thread_start"
  shows "snd (serve_directory w directory None body) =
           [Call Op_find_free_port True, Call (Op_tcp_server [] p) True, Call Op_thread_start True]
           @ snd (probe_loop w (Url p [[]]) 0 5)
           @ snd (body (Url p []))
           @ Call Op_httpd_shutdown (site_ok w S_httpd_shutdown)
             # (if site_ok w S_httpd_shutdown
                then [Call Op_httpd_server_close (site_ok w S_httpd_server_close)] else [])
           @ [Call Op_httpd_server_close (site_ok w S_with_exit_server_close)]"
  using assms
  by (simp add: serve_directory_def find_free_port_def TCPServer_def host_address_def io_simps
        probe_loop_fst Let_def)

text \<open>
  Claim C7, as the code has it.  \<open>start_http_server\<close> makes no liveness probe: it
  sleeps one second and returns.  The setup of \<open>serve_directory\<close> probes the root of the
  server at most five times, stops at the first probe that is answered, never raises
  from the loop, and, once the server is created and its thread started, yields the URL
  to the body of the \<open>with\<close> block whatever the probes answered.
\<close>

theorem start_returns_without_liveness_guarantee:
  "filter is_probe (snd (start_http_server w root_dir port)) = []
   \<and> fst (probe_loop w u 0 5) = Inr ()
   \<and> length (filter is_probe (snd (probe_loop w u 0 5))) \<le> 5
   \<and> (probe_ok w i \<longrightarrow> snd (probe_loop w u i (Suc n)) = [Call (Op_http_get u) True])
   \<and> (ephemeral_port w = Some p \<and> 0 < p \<and> p \<le> 65535
        \<and> \<not> address_in_use (bound_sockets w) Wildcard p \<and> site_ok w S_serve_thread_start
      \<longrightarrow> snd (serve_directory w directory None body) =
           [Call Op_find_free_port True, Call (Op_tcp_server [] p) True, Call Op_thread_start True]
           @ snd (probe_loop w (Url p [[]]) 0 5)
           @ snd (body (Url p []))
           @ Call Op_httpd_shutdown (site_ok w S_httpd_shutdown)
             # (if site_ok w S_httpd_shutdown
                then [Call Op_httpd_server_close (site_ok w S_httpd_server_close)] else [])
           @ [Call Op_httpd_server_close (site_ok w S_with_exit_server_close)])"
proof (intro conjI impI)
  show "filter is_probe (snd (start_http_server w root_dir port)) = []"
    by (rule start_http_server_no_probe)
  show "fst (probe_loop w u 0 5) = Inr ()"
    by (rule probe_loop_fst)
  show "length (filter is_probe (snd (probe_loop w u 0 5))) \<le> 5"
    by (rule probe_loop_count)
  show "snd (probe_loop w u i (Suc n)) = [Call (Op_http_get u) True]" if "probe_ok w i"
    using that by (rule probe_loop_stops)
  show "snd (serve_directory w directory None body) =
           [Call Op_find_free_port True, Call (Op_tcp_server [] p) True, Call Op_thread_start True]
           @ snd (probe_loop w (Url p [[]]) 0 5)
           @ snd (body (Url p []))
           @ Call Op_httpd_shutdown (site_ok w S_httpd_shutdown)
             # (if site_ok w S_httpd_shutdown
                then [Call Op_httpd_server_close (site_ok w S_httpd_server_close)] else [])
           @ [Call Op_httpd_server_close (site_ok w S_with_exit_server_close)]"
    if "ephemeral_port w = Some p \<and> 0 < p \<and> p \<le> 65535
        \<and> \<not> address_in_use (bound_sockets w) Wildcard p \<and> site_ok w S_serve_thread_start"
    using that serve_directory_auto_snd [of w p directory body] by simp
qed

lemma probe_loop_five:
  "probe_loop w u i 5 = probe_loop w u i (Suc (Suc (Suc (Suc (Suc 0)))))"
  by (simp add: eval_nat_numeral)

lemma silent_probe_loop:
  "snd (probe_loop silent_world u 0 5) =
     [Call (Op_http_get u) False, Call (Op_sleep 100) True,
      Call (Op_http_get u) False, Call (Op_sleep 100) True,
      Call (Op_http_get u) False, Call (Op_sleep 100) True,
      Call (Op_http_get u) False, Call (Op_sleep 100) True,
      Call (Op_http_get u) False, Call (Op_sleep 100) True]"
proof -
  have "\<not> probe_ok silent_world j" for j
    by (simp add: sample_worlds)
  then show ?thesis
    by (simp add: probe_loop_five io_simps urlopen_def)
qed

lemma silent_serve_fst:
  "fst (serve_directory silent_world None None (\<lambda>u. io_return u)) = Inr (Url 49152 [])"
  by (simp add: serve_directory_def find_free_port_def TCPServer_def host_address_def
        address_in_use_def io_simps probe_loop_fst Let_def sample_worlds)

lemma calm_start_auto:
  "start_http_server calm_world [''srv'', ''app''] 0 =
     (Inr (49152, \<lparr>server_host = ''localhost'', server_port = 49152,
                   server_handler = SimpleHTTPServerHandler,
                   server_directory = [''srv'', ''app'']\<rparr>),
      [Call (Op_tcp_server ''localhost'' 0) True, Call (Op_print (Msg_server_started 49152)) True,
       Call Op_thread_start True, Call (Op_sleep 1000) True])"
  by (simp add: prod_eq_iff start_fst start_snd sample_worlds)

text \<open>
  Claim C7 as stated fails: with all five probes unanswered \<open>serve_directory\<close> still
  yields its URL, and \<open>start_http_server\<close> returns its handle without a single probe.
\<close>

theorem start_without_liveness_counterexample:
  "snd (probe_loop silent_world (Url 49152 [[]]) 0 5) =
     [Call (Op_http_get (Url 49152 [[]])) False, Call (Op_sleep 100) True,
      Call (Op_http_get (Url 49152 [[]])) False, Call (Op_sleep 100) True,
      Call (Op_http_get (Url 49152 [[]])) False, Call (Op_sleep 100) True,
      Call (Op_http_get (Url 49152 [[]])) False, Call (Op_sleep 100) True,
      Call (Op_http_get (Url 49152 [[]])) False, Call (Op_sleep 100) True]
   \<and> fst (serve_directory silent_world None None (\<lambda>u. io_return u)) = Inr (Url 49152 [])
   \<and> start_http_server calm_world [''srv'', ''app''] 0 =
     (Inr (49152, \<lparr>server_host = ''localhost'', server_port = 49152,
                   server_handler = SimpleHTTPServerHandler,
                   server_directory = [''srv'', ''app'']\<rparr>),
      [Call (Op_tcp_server ''localhost'' 0) True, Call (Op_print (Msg_server_started 49152)) True,
       Call Op_thread_start True, Call (Op_sleep 1000) True])"
  by (simp add: silent_probe_loop silent_serve_fst calm_start_auto)

theorem start_returns_without_liveness_guarantee_witness:
  "snd (probe_loop calm_world (Url 49152 [[]]) 0 (Suc 4)) = [Call (Op_http_get (Url 49152 [[]])) True]
   \<and> snd (serve_directory silent_world None None (\<lambda>u. io_return u)) =
       [Call Op_find_free_port True, Call (Op_tcp_server [] 49152) True, Call Op_thread_start True,
        Call (Op_http_get (Url 49152 [[]])) False, Call (Op_sleep 100) True,
        Call (Op_http_get (Url 49152 [[]])) False, Call (Op_sleep 100) True,
        Call (Op_http_get (Url 49152 [[]])) False, Call (Op_sleep 100) True,
        Call (Op_http_get (Url 49152 [[]])) False, Call (Op_sleep 100) True,
        Call (Op_http_get (Url 49152 [[]])) False, Call (Op_sleep 100) True,
        Call Op_httpd_shutdown True, Call Op_httpd_server_close True,
        Call Op_httpd_server_close True]"
proof -
  have h: "ephemeral_port silent_world = Some 49152" "(0::nat) < 49152" "(49152::nat) \<le> 65535"
    "\<not> address_in_use (bound_sockets silent_world) Wildcard 49152"
    "site_ok silent_world S_serve_thread_start" "probe_ok calm_world 0"
    "site_ok silent_world S_httpd_shutdown" "site_ok silent_world S_httpd_server_close"
    "site_ok silent_world S_with_exit_server_close"
    by (simp_all add: sample_worlds address_in_use_def)
  from start_returns_without_liveness_guarantee
         [of calm_world "[]" 0 "Url 49152 [[]]" 0 4 49152 None "\<lambda>u. io_return u"] h(6)
  have a: "snd (probe_loop calm_world (Url 49152 [[]]) 0 (Suc 4))
             = [Call (Op_http_get (Url 49152 [[]])) True]"
    by simp
  from start_returns_without_liveness_guarantee
         [of silent_world "[]" 0 "Url 49152 [[]]" 0 4 49152 None "\<lambda>u. io_return u"] h
  have b: "snd (serve_directory silent_world None None (\<lambda>u. io_return u)) =
           [Call Op_find_free_port True, Call (Op_tcp_server [] 49152) True, Call Op_thread_start True]
           @ snd (probe_loop silent_world (Url 49152 [[]]) 0 5)
           @ snd (io_return (Url 49152 []) :: url io)
           @ Call Op_httpd_shutdown True # [Call Op_httpd_server_close True]
           @ [Call Op_httpd_server_close True]"
    by simp
  from a b show ?thesis by (simp add: silent_probe_loop io_return_def)
qed


lemma address_in_use_wildcard:
  "address_in_use sockets a port \<Longrightarrow> address_in_use sockets Wildcard port"
  by (auto simp add: address_in_use_def conflicts_def list_ex_iff)









lemma start_http_server_first_event:
  "\<exists>b. hd (snd (start_http_server w root_dir port)) = Call (Op_tcp_server ''localhost'' port) b"
  by (auto simp add: start_http_server_def TCPServer_def io_simps Let_def split: option.splits)

lemma calm_serve_snd:
  "snd (serve_directory calm_world None None (\<lambda>u. io_return u)) =
     [Call Op_find_free_port True, Call (Op_tcp_server [] 49152) True, Call Op_thread_start True,
      Call (Op_http_get (Url 49152 [[]])) True,
      Call Op_httpd_shutdown True, Call Op_httpd_server_close True,
      Call Op_httpd_server_close True]"
proof -
  have h: "ephemeral_port calm_world = Some 49152" "(0::nat) < 49152" "(49152::nat) \<le> 65535"
    "\<not> address_in_use (bound_sockets calm_world) Wildcard 49152"
    "site_ok calm_world S_serve_thread_start" "probe_ok calm_world 0"
    "site_ok calm_world S_httpd_shutdown" "site_ok calm_world S_httpd_server_close"
    "site_ok calm_world S_with_exit_server_close"
    by (simp_all add: sample_worlds address_in_use_def)
  from serve_directory_auto_snd [OF h(1-5), of None "\<lambda>u. io_return u"] h(6-9)
  show ?thesis
    by (simp add: probe_loop_five io_simps urlopen_def)
qed

text \<open>
  Claim C9 fails in the code.  \<open>start_http_server\<close> creates its server on the host
  \<open>localhost\<close>, whatever the port.  \<open>serve_directory\<close> creates its server on the empty
  host name (line 74, \<open>socketserver.TCPServer(("", port), handler)\<close>), which is every
  interface of the machine, although it probes and reports the address \<open>localhost\<close>:
  the run below is the one of \<open>serve_directory()\<close> with no argument.
\<close>

theorem serve_directory_binds_every_interface:
  "(\<exists>b. hd (snd (start_http_server w root_dir port)) = Call (Op_tcp_server ''localhost'' port) b)
   \<and> snd (serve_directory calm_world None None (\<lambda>u. io_return u)) =
     [Call Op_find_free_port True, Call (Op_tcp_server [] 49152) True, Call Op_thread_start True,
      Call (Op_http_get (Url 49152 [[]])) True,
      Call Op_httpd_shutdown True, Call Op_httpd_server_close True,
      Call Op_httpd_server_close True]"
  using start_http_server_first_event [of w root_dir port] calm_serve_snd by simp

text \<open>
  Claim C10 fails in the code.  Every response of \<open>SimpleHTTPServerHandler\<close> ends with
  the three CORS headers.  A response of \<open>SimpleHTTPServerWithContentTypes\<close> has the
  headers of the base class and nothing more: the class does not override
  \<open>end_headers\<close>, so a GET of a CSV file is answered without
  \<open>Access-Control-Allow-Origin\<close>.
\<close>

theorem content_types_handler_sends_no_cors:
  "response_headers SimpleHTTPServerHandler sent = sent @ cors_headers
   \<and> response_headers SimpleHTTPServerWithContentTypes sent = sent
   \<and> get_file_headers SimpleHTTPServerWithContentTypes ''.csv'' 120 =
       [(''Server'', ''SimpleHTTP''), (''Content-type'', ''text/csv''),
        (''Content-Length'', ''120'')]"
  by (simp add: response_headers_def end_headers_def get_file_headers_def extensions_map_def)

end
